theory Spec2Isabelle
  imports Main
begin

section \<open>Values exchanged with the HTTP layer\<close>

text \<open>
  The controller of \<^verbatim>\<open>openedx/core/djangoapps/user_api/accounts/views.py\<close> is
  modelled as functions from a request and a database state to an outcome and a new
  database state. JSON documents (response bodies, account field maps, error maps) are
  values of \<open>json\<close>.
\<close>

datatype json =
    JNull
  | JBool bool
  | JNum int
  | JStr string
  | JList "json list"
  | JObj "(string \<times> json) list"

text \<open>
  The exception classes the handlers name or can meet. \<open>DoesNotExist\<close> is the user
  model's own \<^verbatim>\<open>User.DoesNotExist\<close>. \<open>AccountValidationError\<close> carries its
  \<^verbatim>\<open>field_errors\<close>, \<open>AccountUpdateError\<close> its \<^verbatim>\<open>developer_message\<close> and
  \<^verbatim>\<open>user_message\<close>. \<open>OtherError\<close> stands for every other subclass of
  \<^verbatim>\<open>Exception\<close>. The second component of an exception is the text that
  \<^verbatim>\<open>text_type(exc)\<close> gives.
\<close>

datatype exn_kind =
    DoesNotExist
  | UserNotFound
  | UserNotAuthorized
  | AccountValidationError json
  | AccountUpdateError json json
  | UnsupportedMediaType
  | KeyError
  | IndexError
  | TypeError
  | AttributeError
  | OtherError

datatype exn = Exn (kind: exn_kind) (text_type: string)

text \<open>A row of the user table; \<^verbatim>\<open>request.user\<close> is one as well.\<close>

record User =
  pk :: nat
  username :: string
  email :: string
  is_staff :: bool
  has_usable_password :: bool

record UserOrgTag =
  tag_user :: nat
  org :: string
  key :: string
  tag_value :: string

record UserSocialAuth =
  user_id :: nat
  provider :: string

text \<open>The database: the user table keyed by the unique username, and the two tables
  the retirement handlers touch.\<close>

record db =
  users :: "string \<rightharpoonup> User"
  org_tags :: "UserOrgTag list"
  social_auths :: "UserSocialAuth list"

text \<open>
  The parsed body of a request, \<^verbatim>\<open>request.data\<close>: a mapping from field names to
  values, or a document that is not a mapping (a JSON null, boolean, number, string or
  list).
\<close>

datatype non_mapping =
    BodyNull
  | BodyBool bool
  | BodyNum int
  | BodyStr string
  | BodyList "json list"

datatype payload =
    Mapping "string \<rightharpoonup> string"
  | NotMapping non_mapping

record request =
  user :: User
  query_params :: "string \<rightharpoonup> string"
  content_type :: string
  data :: payload

record response =
  status :: nat
  body :: "json option"

abbreviation HTTP_200_OK :: nat where "HTTP_200_OK \<equiv> 200"
abbreviation HTTP_204_NO_CONTENT :: nat where "HTTP_204_NO_CONTENT \<equiv> 204"
abbreviation HTTP_400_BAD_REQUEST :: nat where "HTTP_400_BAD_REQUEST \<equiv> 400"
abbreviation HTTP_403_FORBIDDEN :: nat where "HTTP_403_FORBIDDEN \<equiv> 403"
abbreviation HTTP_404_NOT_FOUND :: nat where "HTTP_404_NOT_FOUND \<equiv> 404"
abbreviation HTTP_415_UNSUPPORTED_MEDIA_TYPE :: nat where "HTTP_415_UNSUPPORTED_MEDIA_TYPE \<equiv> 415"
abbreviation HTTP_500_INTERNAL_SERVER_ERROR :: nat where "HTTP_500_INTERNAL_SERVER_ERROR \<equiv> 500"

section \<open>Actions: code that may change the database and may raise\<close>

text \<open>
  An action takes the database and returns either the exception it raised (\<open>Inl\<close>) or
  its value (\<open>Inr\<close>), together with the database it left behind. An action that raises
  may have written before raising.
\<close>

type_synonym 'a action = "db \<Rightarrow> (exn + 'a) \<times> db"

definition ret :: "'a \<Rightarrow> 'a action" where
  "ret v d = (Inr v, d)"

definition raise :: "exn \<Rightarrow> 'a action" where
  "raise e d = (Inl e, d)"

text \<open>Sequencing: the second statement runs only if the first did not raise.\<close>

definition seq :: "'a action \<Rightarrow> ('a \<Rightarrow> 'b action) \<Rightarrow> 'b action" where
  "seq m f d = (case m d of (Inl e, d') \<Rightarrow> (Inl e, d') | (Inr v, d') \<Rightarrow> f v d')"

text \<open>
  \<^verbatim>\<open>with transaction.atomic():\<close> commits what the block wrote when the block ends
  normally and rolls the database back to its state at entry when the block raises; the
  exception goes on to the enclosing code.
\<close>

definition atomic :: "'a action \<Rightarrow> 'a action" where
  "atomic blk d = (case blk d of (Inl e, d') \<Rightarrow> (Inl e, d) | (Inr v, d') \<Rightarrow> (Inr v, d'))"

text \<open>\<^verbatim>\<open>xs[0]\<close> raises \<^verbatim>\<open>IndexError\<close> on the empty list.\<close>

definition first_item :: "'a list \<Rightarrow> 'a action" where
  "first_item xs = (case xs of [] \<Rightarrow> raise (Exn IndexError ''list index out of range'')
                    | x # _ \<Rightarrow> ret x)"

text \<open>
  \<^verbatim>\<open>request.data[k]\<close> raises \<^verbatim>\<open>KeyError\<close> on a mapping without the key \<open>k\<close> and
  \<^verbatim>\<open>TypeError\<close> on a body that is not a mapping; \<^verbatim>\<open>request.data.get(k, None)\<close>
  gives \<^verbatim>\<open>None\<close> on a mapping without the key and raises \<^verbatim>\<open>AttributeError\<close> on a
  body that is not a mapping. The texts of \<^verbatim>\<open>TypeError\<close> and \<^verbatim>\<open>AttributeError\<close>
  name the Python type of the body and are left empty.
\<close>

definition data_subscript :: "payload \<Rightarrow> string \<Rightarrow> string action" where
  "data_subscript dat k =
     (case dat of
        Mapping m \<Rightarrow>
          (case m k of
             None \<Rightarrow> raise (Exn KeyError (CHR 0x27 # k @ [CHR 0x27]))
           | Some v \<Rightarrow> ret v)
      | NotMapping _ \<Rightarrow> raise (Exn TypeError []))"


section \<open>Strings\<close>

text \<open>\<^verbatim>\<open>s.strip(c)\<close> removes every leading and every trailing \<open>c\<close>.\<close>

definition str_strip :: "char \<Rightarrow> string \<Rightarrow> string" where
  "str_strip c s = rev (dropWhile (\<lambda>x. x = c) (rev (dropWhile (\<lambda>x. x = c) s)))"

text \<open>\<^verbatim>\<open>s.split(c)\<close> cuts at every \<open>c\<close>; the empty string gives one empty entry.\<close>

fun str_split :: "char \<Rightarrow> string \<Rightarrow> string list" where
  "str_split c [] = [[]]"
| "str_split c (x # xs) =
     (if x = c then [] # str_split c xs
      else (case str_split c xs of [] \<Rightarrow> [[x]] | w # ws \<Rightarrow> (x # w) # ws))"

text \<open>\<^verbatim>\<open>c.join(names)\<close>, used to write a comma-separated parameter.\<close>

fun str_join :: "char \<Rightarrow> string list \<Rightarrow> string" where
  "str_join c [] = []"
| "str_join c [n] = n"
| "str_join c (n # m # ns) = n @ c # str_join c (m # ns)"

section \<open>The object-relational layer\<close>

text \<open>\<^verbatim>\<open>User.objects.get(username=...)\<close>: the row, or \<^verbatim>\<open>DoesNotExist\<close>.\<close>

definition objects_get :: "string \<Rightarrow> User action" where
  "objects_get uname d =
     (case users d uname of
        None \<Rightarrow> (Inl (Exn DoesNotExist ''User matching query does not exist.''), d)
      | Some u \<Rightarrow> (Inr u, d))"

text \<open>\<^verbatim>\<open>user.save()\<close> writes the row back.\<close>

definition save :: "User \<Rightarrow> unit action" where
  "save u d = (Inr (), d\<lparr>users := (users d)(username u \<mapsto> u)\<rparr>)"

text \<open>The source's \<^verbatim>\<open>_set_unusable_password(user)\<close>:
  \<^verbatim>\<open>user.set_unusable_password(); user.save()\<close>.\<close>

definition set_unusable_password :: "User \<Rightarrow> unit action" where
  "set_unusable_password u = save (u\<lparr>has_usable_password := False\<rparr>)"


text \<open>\<^verbatim>\<open>UserOrgTag.objects.filter(user=user, key='email-optin')\<close>.\<close>

definition email_optin_tags :: "User \<Rightarrow> db \<Rightarrow> UserOrgTag list" where
  "email_optin_tags u d =
     filter (\<lambda>t. tag_user t = pk u \<and> key t = ''email-optin'') (org_tags d)"

section \<open>Collaborators outside this file\<close>

text \<open>
  The services the handlers call are defined elsewhere and are parameters of the
  handlers here, each an arbitrary action:
  \<^item> \<open>gas\<close>, \<^verbatim>\<open>get_account_settings(request, usernames, view)\<close>, which is given the
    requesting identity \<^verbatim>\<open>request.user\<close>, the usernames (\<open>None\<close> when the handler
    passes no list) and the view selector;
  \<^item> \<open>upd\<close>, \<^verbatim>\<open>update_account_settings(requesting_user, update, username)\<close>;
  \<^item> \<open>lookup\<close>, \<^verbatim>\<open>get_potentially_retired_user_by_username_and_hash\<close>;
  \<^item> \<open>opt_in\<close>, \<^verbatim>\<open>update_email_opt_in(user, org, opt_in)\<close>;
  \<^item> \<open>send\<close>, the dispatch of the signal \<^verbatim>\<open>USER_RETIRE_MAILINGS\<close>;
  \<^item> \<open>retired_email\<close>, \<^verbatim>\<open>get_retired_email_by_email(email)\<close>.

  \<^verbatim>\<open>AccountRetireMailingsView\<close> and \<^verbatim>\<open>DeactivateLogoutView\<close> name no parser
  classes of their own; the parser classes they inherit from the framework's settings
  are the parameter \<open>parsers\<close> of their handlers, each parser class represented by the
  content type it accepts.
\<close>

type_synonym gas_fn = "User \<Rightarrow> string list option \<Rightarrow> string option \<Rightarrow> json list action"
type_synonym upd_fn = "User \<Rightarrow> payload \<Rightarrow> string \<Rightarrow> unit action"
type_synonym lookup_fn = "string \<Rightarrow> string \<Rightarrow> User action"
type_synonym opt_in_fn = "User \<Rightarrow> string \<Rightarrow> bool \<Rightarrow> unit action"
type_synonym send_fn = "User \<Rightarrow> unit action"

text \<open>
  Modelled from the spec: the account settings service \<^verbatim>\<open>get_account_settings\<close> of
  \<^verbatim>\<open>accounts/api.py\<close> is missing from the sources at hand. \<open>resolve_accounts\<close> is
  its resolution of the usernames: following the specification, each named account is
  resolved to its visible field map, in the order of the input list, and the resolution
  fails if any named account does not exist. The visibility rules are the parameter
  \<open>visible\<close>.
\<close>

fun resolve_accounts ::
  "(User \<Rightarrow> string option \<Rightarrow> User \<Rightarrow> json) \<Rightarrow> User \<Rightarrow> string option \<Rightarrow> db \<Rightarrow> string list
    \<Rightarrow> json list option" where
  "resolve_accounts visible requesting view d [] = Some []"
| "resolve_accounts visible requesting view d (n # ns) =
     (case users d n of
        None \<Rightarrow> None
      | Some u \<Rightarrow>
          (case resolve_accounts visible requesting view d ns of
             None \<Rightarrow> None
           | Some js \<Rightarrow> Some (visible requesting view u # js)))"

text \<open>
  Modelled from the spec: the missing \<^verbatim>\<open>get_account_settings\<close> itself. It fails with
  \<open>UserNotFound\<close> when the resolution fails and returns the field maps otherwise; it
  reads and never writes. Without a list of names there is nothing to resolve.
\<close>

definition get_account_settings ::
  "(User \<Rightarrow> string option \<Rightarrow> User \<Rightarrow> json) \<Rightarrow> gas_fn" where
  "get_account_settings visible requesting usernames view d =
     (case resolve_accounts visible requesting view d
             (case usernames of None \<Rightarrow> [] | Some ns \<Rightarrow> ns) of
        None \<Rightarrow> (Inl (Exn UserNotFound []), d)
      | Some js \<Rightarrow> (Inr js, d))"

text \<open>
  Modelled from the spec: the parser class \<^verbatim>\<open>MergePatchParser\<close> of
  \<^verbatim>\<open>openedx/core/lib/api/parsers.py\<close> is missing from the sources at hand. Following
  the specification it accepts the merge-patch content type only; a parser class is
  represented by the content type it accepts.
\<close>

definition MergePatchParser :: string where
  "MergePatchParser = ''application/merge-patch+json''"

text \<open>
  Modelled from the spec: the framework's reading of \<^verbatim>\<open>request.data\<close> is missing
  from the sources at hand. Following the specification, a request whose content type
  none of the view's parser classes accepts fails with \<open>UnsupportedMediaType\<close> when its
  data is read.
\<close>

definition request_data :: "string list \<Rightarrow> request \<Rightarrow> payload action" where
  "request_data parsers req =
     (if content_type req \<in> set parsers then ret (data req)
      else raise (Exn UnsupportedMediaType ''Unsupported media type in request.''))"

text \<open>
  Modelled from the spec: the framework's handler of exceptions that leave a view is
  missing from the sources at hand. Following the specification, an
  \<open>UnsupportedMediaType\<close> is answered with status 415; other exceptions go on.
\<close>

definition handle_exception :: "exn \<Rightarrow> exn + response" where
  "handle_exception e =
     (if kind e = UnsupportedMediaType
      then Inr \<lparr>status = HTTP_415_UNSUPPORTED_MEDIA_TYPE,
                body = Some (JObj [(''detail'', JStr (text_type e))])\<rparr>
      else Inl e)"

section \<open>AccountViewSet\<close>

definition parser_classes :: "string list" where
  "parser_classes = [MergePatchParser]"

text \<open>\<^verbatim>\<open>GET /api/user/v1/me\<close>\<close>

definition AccountViewSet_get :: "request \<Rightarrow> response" where
  "AccountViewSet_get req =
     \<lparr>status = HTTP_200_OK, body = Some (JObj [(''username'', JStr (username (user req)))])\<rparr>"

text \<open>
  \<^verbatim>\<open>GET /api/user/v1/accounts?username={username1,username2}\<close>.
  \<open>list_usernames\<close> is the value of the variable \<^verbatim>\<open>usernames\<close> handed to the
  settings service: \<^verbatim>\<open>usernames.strip(',').split(',')\<close> of the parameter, or no
  list when the parameter is absent or empty (both are falsy).
\<close>

definition list_usernames :: "request \<Rightarrow> string list option" where
  "list_usernames req =
     (case query_params req ''username'' of
        None \<Rightarrow> None
      | Some usernames \<Rightarrow>
          if usernames \<noteq> [] then Some (str_split CHR '','' (str_strip CHR '','' usernames))
          else None)"

definition AccountViewSet_list :: "gas_fn \<Rightarrow> request \<Rightarrow> response action" where
  "AccountViewSet_list gas req d =
     (case gas (user req) (list_usernames req) (query_params req ''view'') d of
        (Inl e, d') \<Rightarrow>
          if kind e = UserNotFound
          then (Inr \<lparr>status = (if is_staff (user req) then HTTP_403_FORBIDDEN
                                else HTTP_404_NOT_FOUND),
                     body = None\<rparr>, d')
          else (Inl e, d')
      | (Inr account_settings, d') \<Rightarrow>
          (Inr \<lparr>status = HTTP_200_OK, body = Some (JList account_settings)\<rparr>, d'))"

text \<open>\<^verbatim>\<open>GET /api/user/v1/accounts/{username}/\<close>. The indexing \<^verbatim>\<open>account_settings[0]\<close>
  is outside the \<^verbatim>\<open>try\<close>.\<close>

definition AccountViewSet_retrieve :: "gas_fn \<Rightarrow> request \<Rightarrow> string \<Rightarrow> response action" where
  "AccountViewSet_retrieve gas req uname d =
     (case gas (user req) (Some [uname]) (query_params req ''view'') d of
        (Inl e, d') \<Rightarrow>
          if kind e = UserNotFound
          then (Inr \<lparr>status = (if is_staff (user req) then HTTP_403_FORBIDDEN
                                else HTTP_404_NOT_FOUND),
                     body = None\<rparr>, d')
          else (Inl e, d')
      | (Inr account_settings, d') \<Rightarrow>
          seq (first_item account_settings)
              (\<lambda>s. ret \<lparr>status = HTTP_200_OK, body = Some s\<rparr>) d')"

text \<open>
  \<^verbatim>\<open>PATCH /api/user/v1/accounts/{username}/\<close>. The block under
  \<^verbatim>\<open>transaction.atomic()\<close> reads \<^verbatim>\<open>request.data\<close>, updates, and reads the settings
  back; the four \<^verbatim>\<open>except\<close> clauses follow in the source's order, and any other
  exception leaves the handler.
\<close>

definition partial_update_block :: "upd_fn \<Rightarrow> gas_fn \<Rightarrow> request \<Rightarrow> string \<Rightarrow> json action" where
  "partial_update_block upd gas req uname =
     seq (request_data parser_classes req) (\<lambda>dat.
     seq (upd (user req) dat uname) (\<lambda>_.
     seq (gas (user req) (Some [uname]) None) first_item))"

definition AccountViewSet_partial_update ::
  "upd_fn \<Rightarrow> gas_fn \<Rightarrow> request \<Rightarrow> string \<Rightarrow> response action" where
  "AccountViewSet_partial_update upd gas req uname d =
     (case atomic (partial_update_block upd gas req uname) d of
        (Inl e, d') \<Rightarrow>
          (case kind e of
             UserNotAuthorized \<Rightarrow>
               (Inr \<lparr>status = (if is_staff (user req) then HTTP_403_FORBIDDEN
                                else HTTP_404_NOT_FOUND),
                     body = None\<rparr>, d')
           | UserNotFound \<Rightarrow> (Inr \<lparr>status = HTTP_404_NOT_FOUND, body = None\<rparr>, d')
           | AccountValidationError field_errors \<Rightarrow>
               (Inr \<lparr>status = HTTP_400_BAD_REQUEST,
                     body = Some (JObj [(''field_errors'', field_errors)])\<rparr>, d')
           | AccountUpdateError developer_message user_message \<Rightarrow>
               (Inr \<lparr>status = HTTP_400_BAD_REQUEST,
                     body = Some (JObj [(''developer_message'', developer_message),
                                        (''user_message'', user_message)])\<rparr>, d')
           | _ \<Rightarrow> (Inl e, d'))
      | (Inr account_settings, d') \<Rightarrow>
          (Inr \<lparr>status = HTTP_200_OK, body = Some account_settings\<rparr>, d'))"

text \<open>
  Modelled from the spec: the framework's dispatch of a PATCH request to the handler is
  missing from the sources at hand; an exception that leaves the handler goes to
  \<open>handle_exception\<close>.
\<close>

definition dispatch_patch :: "upd_fn \<Rightarrow> gas_fn \<Rightarrow> request \<Rightarrow> string \<Rightarrow> response action" where
  "dispatch_patch upd gas req uname d =
     (case AccountViewSet_partial_update upd gas req uname d of
        (Inl e, d') \<Rightarrow> (handle_exception e, d')
      | (Inr r, d') \<Rightarrow> (Inr r, d'))"

section \<open>AccountDeactivationView\<close>

text \<open>\<^verbatim>\<open>POST /api/user/v1/accounts/{username}/deactivate/\<close>. There is no \<^verbatim>\<open>try\<close>.\<close>

definition AccountDeactivationView_post :: "gas_fn \<Rightarrow> request \<Rightarrow> string \<Rightarrow> response action" where
  "AccountDeactivationView_post gas req uname =
     seq (objects_get uname) (\<lambda>u.
     seq (set_unusable_password u) (\<lambda>_.
     seq (gas (user req) (Some [uname]) None) (\<lambda>account_settings.
     seq (first_item account_settings) (\<lambda>s.
     ret \<lparr>status = HTTP_200_OK, body = Some s\<rparr>))))"

section \<open>AccountRetireMailingsView\<close>

text \<open>The \<^verbatim>\<open>for\<close> loop over the user's email-optin tags; it stops at the first
  exception.\<close>

fun opt_out_each :: "opt_in_fn \<Rightarrow> User \<Rightarrow> UserOrgTag list \<Rightarrow> unit action" where
  "opt_out_each opt_in u [] d = (Inr (), d)"
| "opt_out_each opt_in u (preference # rest) d =
     (case opt_in u (org preference) False d of
        (Inl e, d') \<Rightarrow> (Inl e, d')
      | (Inr _, d') \<Rightarrow> opt_out_each opt_in u rest d')"

definition retire_mailings_block :: "opt_in_fn \<Rightarrow> send_fn \<Rightarrow> User \<Rightarrow> unit action" where
  "retire_mailings_block opt_in send u =
     seq (\<lambda>d. opt_out_each opt_in u (email_optin_tags u d) d) (\<lambda>_. send u)"

text \<open>
  \<^verbatim>\<open>POST /api/user/v1/accounts/{username}/retire_mailings/\<close>;
  \<open>retire_mailings_try\<close> is the body of its \<^verbatim>\<open>try\<close>. The statement
  \<^verbatim>\<open>retired_username = request.data['retired_username']\<close> stands before the
  \<^verbatim>\<open>try\<close>: an exception of reading the body or of the subscript leaves the handler.
\<close>

definition retire_mailings_try ::
  "lookup_fn \<Rightarrow> opt_in_fn \<Rightarrow> send_fn \<Rightarrow> string \<Rightarrow> string \<Rightarrow> unit action" where
  "retire_mailings_try lookup opt_in send uname retired_username =
     seq (lookup uname retired_username) (\<lambda>u. atomic (retire_mailings_block opt_in send u))"

definition AccountRetireMailingsView_post ::
  "string list \<Rightarrow> lookup_fn \<Rightarrow> opt_in_fn \<Rightarrow> send_fn \<Rightarrow> request \<Rightarrow> string
    \<Rightarrow> response action" where
  "AccountRetireMailingsView_post parsers lookup opt_in send req uname d =
     (case seq (request_data parsers req)
               (\<lambda>dat. data_subscript dat ''retired_username'') d of
        (Inl e, d0) \<Rightarrow> (Inl e, d0)
      | (Inr retired_username, d0) \<Rightarrow>
          (case retire_mailings_try lookup opt_in send uname retired_username d0 of
             (Inl e, d') \<Rightarrow>
               if kind e = DoesNotExist
               then (Inr \<lparr>status = HTTP_404_NOT_FOUND, body = None\<rparr>, d')
               else (Inr \<lparr>status = HTTP_500_INTERNAL_SERVER_ERROR,
                          body = Some (JStr (text_type e))\<rparr>, d')
           | (Inr _, d') \<Rightarrow> (Inr \<lparr>status = HTTP_204_NO_CONTENT, body = None\<rparr>, d')))"

section \<open>DeactivateLogoutView\<close>




section \<open>Sample data and sample collaborators\<close>

text \<open>
  A small database and simple stand-ins for the collaborators, used to run the handlers
  on concrete requests. \<open>carol\<close> has no row in \<open>db0\<close>. The sample update service
  writes a new address before it validates it, so that a rejected update leaves a write
  to roll back.
\<close>

definition alice :: User where
  "alice = \<lparr>pk = 1, username = ''alice'', email = ''alice@example.com'', is_staff = False,
            has_usable_password = True\<rparr>"

definition bob :: User where
  "bob = \<lparr>pk = 2, username = ''bob'', email = ''bob@example.com'', is_staff = False,
          has_usable_password = True\<rparr>"

definition admin :: User where
  "admin = \<lparr>pk = 3, username = ''admin'', email = ''admin@example.com'', is_staff = True,
            has_usable_password = True\<rparr>"

definition carol :: User where
  "carol = \<lparr>pk = 5, username = ''carol'', email = ''carol@example.com'', is_staff = False,
            has_usable_password = True\<rparr>"

definition db0 :: db where
  "db0 = \<lparr>users = [''alice'' \<mapsto> alice, ''bob'' \<mapsto> bob, ''admin'' \<mapsto> admin],
          org_tags = [\<lparr>tag_user = 1, org = ''edX'', key = ''email-optin'', tag_value = ''True''\<rparr>,
                      \<lparr>tag_user = 1, org = ''MITx'', key = ''email-optin'', tag_value = ''True''\<rparr>,
                      \<lparr>tag_user = 2, org = ''edX'', key = ''email-optin'', tag_value = ''True''\<rparr>],
          social_auths = [\<lparr>user_id = 1, provider = ''google-oauth2''\<rparr>]\<rparr>"

definition request_of ::
  "User \<Rightarrow> (string \<times> string) list \<Rightarrow> string \<Rightarrow> (string \<times> string) list \<Rightarrow> request" where
  "request_of u params ctype form =
     \<lparr>user = u, query_params = map_of params, content_type = ctype,
      data = Mapping (map_of form)\<rparr>"

definition sample_parsers :: "string list" where
  "sample_parsers =
     [''application/json'', ''application/x-www-form-urlencoded'', ''multipart/form-data'']"

definition patch_request :: "User \<Rightarrow> (string \<times> string) list \<Rightarrow> request" where
  "patch_request u changes = request_of u [] ''application/merge-patch+json'' changes"

definition sample_visible :: "User \<Rightarrow> string option \<Rightarrow> User \<Rightarrow> json" where
  "sample_visible requesting view u =
     (if (is_staff requesting \<or> username requesting = username u) \<and> view \<noteq> Some ''shared''
      then JObj [(''username'', JStr (username u)), (''email'', JStr (email u))]
      else JObj [(''username'', JStr (username u))])"

definition sample_update :: upd_fn where
  "sample_update requesting update uname d =
     (if username requesting \<noteq> uname then (Inl (Exn UserNotAuthorized []), d)
      else case users d uname of
             None \<Rightarrow> (Inl (Exn UserNotFound []), d)
           | Some u \<Rightarrow>
               (case update of
                  NotMapping _ \<Rightarrow>
                    (Inl (Exn (AccountUpdateError (JStr ''the update is not a mapping'')
                                                  (JStr ''The update could not be read.'')) []), d)
                | Mapping changes \<Rightarrow>
                    (case changes ''username'' of
                       Some _ \<Rightarrow>
                         (Inl (Exn (AccountUpdateError (JStr ''username is read-only'')
                                      (JStr ''This field cannot be changed.'')) []), d)
                     | None \<Rightarrow>
                         (case changes ''email'' of
                            None \<Rightarrow> (Inr (), d)
                          | Some e \<Rightarrow>
                              if CHR ''@'' \<in> set e
                              then (Inr (), d\<lparr>users := (users d)(uname \<mapsto> u\<lparr>email := e\<rparr>)\<rparr>)
                              else (Inl (Exn (AccountValidationError
                                               (JObj [(''email'', JStr ''not an address'')])) []),
                                    d\<lparr>users := (users d)(uname \<mapsto> u\<lparr>email := e\<rparr>)\<rparr>)))))"

definition failing_settings :: gas_fn where
  "failing_settings requesting usernames view d =
     (Inl (Exn OtherError ''settings unavailable''), d)"

definition sample_lookup :: lookup_fn where
  "sample_lookup uname retired_username d =
     (case users d uname of
        Some u \<Rightarrow> (Inr u, d)
      | None \<Rightarrow>
          (case users d retired_username of
             Some u \<Rightarrow> (Inr u, d)
           | None \<Rightarrow> (Inl (Exn DoesNotExist ''User matching query does not exist.''), d)))"

definition sample_opt_in :: opt_in_fn where
  "sample_opt_in u organisation flag d =
     (Inr (), d\<lparr>org_tags :=
        map (\<lambda>t. if tag_user t = pk u \<and> org t = organisation \<and> key t = ''email-optin''
                  then t\<lparr>tag_value := (if flag then ''True'' else ''False'')\<rparr> else t)
            (org_tags d)\<rparr>)"

definition failing_opt_in :: opt_in_fn where
  "failing_opt_in u organisation flag d =
     (if organisation = ''MITx''
      then (Inl (Exn OtherError ''preference store unavailable''), d)
      else sample_opt_in u organisation flag d)"

definition vanished_send :: send_fn where
  "vanished_send u d = (Inl (Exn DoesNotExist ''User matching query does not exist.''), d)"

definition failing_send :: send_fn where
  "failing_send u d = (Inl (Exn OtherError ''mailing service unavailable''), d)"


section \<open>Lemmas on the string operations and the settings service\<close>

lemma str_split_not_Nil: "str_split c s \<noteq> []"
  by (induction s) (auto split: list.splits)

lemma str_split_no_sep: "c \<notin> set n \<Longrightarrow> str_split c n = [n]"
  by (induction n) auto

lemma str_split_append_sep:
  "c \<notin> set n \<Longrightarrow> str_split c (n @ c # rest) = n # str_split c rest"
  by (induction n) auto

lemma str_split_join:
  "ns \<noteq> [] \<Longrightarrow> \<forall>n \<in> set ns. c \<notin> set n \<Longrightarrow> str_split c (str_join c ns) = ns"
  by (induction c ns rule: str_join.induct)
     (auto simp: str_split_no_sep str_split_append_sep)

lemma str_strip_exact:
  assumes "t \<noteq> []" "hd t \<noteq> c" "last t \<noteq> c" "set pre \<subseteq> {c}" "set suf \<subseteq> {c}"
  shows "str_strip c (pre @ t @ suf) = t"
proof -
  from assms(1) obtain x t' where t: "t = x # t'" by (cases t) auto
  with assms(2) have x: "x \<noteq> c" by simp
  have "dropWhile (\<lambda>x. x = c) (pre @ t @ suf) = dropWhile (\<lambda>x. x = c) (t @ suf)"
    using assms(4) by (intro dropWhile_append2) auto
  also have "\<dots> = t @ suf" using t x by simp
  finally have 1: "dropWhile (\<lambda>x. x = c) (pre @ t @ suf) = t @ suf" .
  from assms(1) obtain y r where r: "rev t = y # r" by (cases "rev t") auto
  then have "y = last t" using assms(1) by (metis list.sel(1) hd_rev)
  with assms(3) have y: "y \<noteq> c" by simp
  have "dropWhile (\<lambda>x. x = c) (rev suf @ rev t) = dropWhile (\<lambda>x. x = c) (rev t)"
    using assms(5) by (intro dropWhile_append2) auto
  also have "\<dots> = rev t" using r y by simp
  finally show ?thesis by (simp add: str_strip_def 1)
qed

lemma hd_str_join: "ns \<noteq> [] \<Longrightarrow> hd ns \<noteq> [] \<Longrightarrow> hd (str_join c ns) = hd (hd ns)"
  by (induction c ns rule: str_join.induct) auto

lemma str_join_Nil_last: "ns \<noteq> [] \<Longrightarrow> last ns \<noteq> [] \<Longrightarrow> str_join c ns \<noteq> []"
  by (induction c ns rule: str_join.induct) auto

lemma last_str_join: "ns \<noteq> [] \<Longrightarrow> last ns \<noteq> [] \<Longrightarrow> last (str_join c ns) = last (last ns)"
  by (induction c ns rule: str_join.induct) (auto simp: str_join_Nil_last)

lemma str_join_Nil: "ns \<noteq> [] \<Longrightarrow> hd ns \<noteq> [] \<Longrightarrow> str_join c ns \<noteq> []"
  by (induction c ns rule: str_join.induct) auto

lemma resolve_accounts_missing:
  "n \<in> set ns \<Longrightarrow> users d n = None \<Longrightarrow> resolve_accounts visible requesting view d ns = None"
  by (induction ns) (auto split: option.splits)

lemma strip_split_join:
  assumes "names \<noteq> []" "\<forall>n \<in> set names. CHR '','' \<notin> set n"
    "hd names \<noteq> []" "last names \<noteq> []"
    "set pre \<subseteq> {CHR '',''}" "set suf \<subseteq> {CHR '',''}"
  shows "str_split CHR '','' (str_strip CHR '','' (pre @ str_join CHR '','' names @ suf)) = names"
proof -
  have "hd names \<in> set names" "last names \<in> set names" using assms(1) by auto
  then have "hd (hd names) \<noteq> CHR '',''" "last (last names) \<noteq> CHR '',''"
    using assms(2,3,4) by (metis hd_in_set, metis last_in_set)
  then have "str_strip CHR '','' (pre @ str_join CHR '','' names @ suf) = str_join CHR '','' names"
    using assms by (intro str_strip_exact) (simp_all add: hd_str_join last_str_join str_join_Nil)
  then show ?thesis using assms(1,2) by (simp add: str_split_join)
qed

lemma strip_split_single:
  assumes "uname \<noteq> []" and "CHR '','' \<notin> set uname"
  shows "str_split CHR '','' (str_strip CHR '','' uname) = [uname]"
  using strip_split_join [of "[uname]" "[]" "[]"] assms by simp

section \<open>Partial update\<close>

text \<open>
  C1. In a PATCH request that reaches the operation, the update and the re-read of the
  settings run inside one transaction. If both succeed, the response is 200 and carries
  the settings as read from the state the update has just written. If the update raises
  a validation error, the response is 400 with the field errors and the database is the
  one before the request, whatever the update service wrote before raising; the same
  rollback happens for any other exception of the update and for an exception of the
  re-read after a successful update.
\<close>

theorem partial_update_atomic:
  assumes "content_type req = MergePatchParser"
  shows
    "(upd (user req) (data req) uname d = (Inr (), d1) \<and>
      gas (user req) (Some [uname]) None d1 = (Inr (s # ss), d2)
      \<longrightarrow> AccountViewSet_partial_update upd gas req uname d =
            (Inr \<lparr>status = 200, body = Some s\<rparr>, d2)) \<and>
     (upd (user req) (data req) uname d = (Inl (Exn (AccountValidationError fe) t), d3)
      \<longrightarrow> AccountViewSet_partial_update upd gas req uname d =
            (Inr \<lparr>status = 400, body = Some (JObj [(''field_errors'', fe)])\<rparr>, d)) \<and>
     (upd (user req) (data req) uname d = (Inl e, d4)
      \<longrightarrow> snd (AccountViewSet_partial_update upd gas req uname d) = d) \<and>
     (upd (user req) (data req) uname d = (Inr (), d5) \<and>
      gas (user req) (Some [uname]) None d5 = (Inl e', d6)
      \<longrightarrow> snd (AccountViewSet_partial_update upd gas req uname d) = d)"
  using assms
  by (auto simp: AccountViewSet_partial_update_def partial_update_block_def atomic_def seq_def
        request_data_def parser_classes_def ret_def raise_def first_item_def
      split: exn_kind.splits)

theorem partial_update_atomic_witness:
  "AccountViewSet_partial_update sample_update (get_account_settings sample_visible)
       (patch_request alice [(''email'', ''alice@edx.org'')]) ''alice'' db0 =
     (Inr \<lparr>status = 200,
           body = Some (JObj [(''username'', JStr ''alice''), (''email'', JStr ''alice@edx.org'')])\<rparr>,
      db0\<lparr>users := (users db0)(''alice'' \<mapsto> alice\<lparr>email := ''alice@edx.org''\<rparr>)\<rparr>) \<and>
   AccountViewSet_partial_update sample_update (get_account_settings sample_visible)
       (patch_request alice [(''email'', ''nowhere'')]) ''alice'' db0 =
     (Inr \<lparr>status = 400,
           body = Some (JObj [(''field_errors'', JObj [(''email'', JStr ''not an address'')])])\<rparr>,
      db0) \<and>
   snd (AccountViewSet_partial_update sample_update failing_settings
       (patch_request alice [(''email'', ''alice@edx.org'')]) ''alice'' db0) = db0"
  using partial_update_atomic
          [where req = "patch_request alice [(''email'', ''alice@edx.org'')]"
             and upd = sample_update and gas = "get_account_settings sample_visible"
             and uname = "''alice''" and d = db0
             and ?d1.0 = "db0\<lparr>users := (users db0)(''alice'' \<mapsto> alice\<lparr>email := ''alice@edx.org''\<rparr>)\<rparr>"
             and ?d2.0 = "db0\<lparr>users := (users db0)(''alice'' \<mapsto> alice\<lparr>email := ''alice@edx.org''\<rparr>)\<rparr>"
             and s = "JObj [(''username'', JStr ''alice''), (''email'', JStr ''alice@edx.org'')]"
             and ss = "[]"]
        partial_update_atomic
          [where req = "patch_request alice [(''email'', ''nowhere'')]"
             and upd = sample_update and gas = "get_account_settings sample_visible"
             and uname = "''alice''" and d = db0
             and fe = "JObj [(''email'', JStr ''not an address'')]" and t = "[]"
             and ?d3.0 = "db0\<lparr>users := (users db0)(''alice'' \<mapsto> alice\<lparr>email := ''nowhere''\<rparr>)\<rparr>"
             and e = "Exn (AccountValidationError (JObj [(''email'', JStr ''not an address'')])) []"
             and ?d4.0 = "db0\<lparr>users := (users db0)(''alice'' \<mapsto> alice\<lparr>email := ''nowhere''\<rparr>)\<rparr>"]
        partial_update_atomic
          [where req = "patch_request alice [(''email'', ''alice@edx.org'')]"
             and upd = sample_update and gas = failing_settings
             and uname = "''alice''" and d = db0
             and ?d5.0 = "db0\<lparr>users := (users db0)(''alice'' \<mapsto> alice\<lparr>email := ''alice@edx.org''\<rparr>)\<rparr>"
             and ?d6.0 = "db0\<lparr>users := (users db0)(''alice'' \<mapsto> alice\<lparr>email := ''alice@edx.org''\<rparr>)\<rparr>"
             and e' = "Exn OtherError ''settings unavailable''"]
  by (simp add: patch_request_def request_of_def MergePatchParser_def sample_update_def
        get_account_settings_def sample_visible_def failing_settings_def
        db0_def alice_def)

text \<open>
  C5. When the block of the partial update raises a domain exception, whether from the
  update service or from the re-read, the response is: for \<open>UserNotAuthorized\<close>, 403 if
  the caller is staff and 404 otherwise; for \<open>UserNotFound\<close>, 404; for
  \<open>AccountValidationError\<close>, 400 with the exception's \<open>field_errors\<close> under the key
  \<open>field_errors\<close>; for \<open>AccountUpdateError\<close>, 400 with its \<open>developer_message\<close> and
  \<open>user_message\<close>. The database is rolled back in each case.
\<close>

theorem partial_update_error_mapping:
  assumes "partial_update_block upd gas req uname d = (Inl e, d1)"
  shows
    "(kind e = UserNotAuthorized
      \<longrightarrow> AccountViewSet_partial_update upd gas req uname d =
            (Inr \<lparr>status = (if is_staff (user req) then 403 else 404), body = None\<rparr>, d)) \<and>
     (kind e = UserNotFound
      \<longrightarrow> AccountViewSet_partial_update upd gas req uname d =
            (Inr \<lparr>status = 404, body = None\<rparr>, d)) \<and>
     (kind e = AccountValidationError field_errors
      \<longrightarrow> AccountViewSet_partial_update upd gas req uname d =
            (Inr \<lparr>status = 400, body = Some (JObj [(''field_errors'', field_errors)])\<rparr>, d)) \<and>
     (kind e = AccountUpdateError developer_message user_message
      \<longrightarrow> AccountViewSet_partial_update upd gas req uname d =
            (Inr \<lparr>status = 400,
                  body = Some (JObj [(''developer_message'', developer_message),
                                     (''user_message'', user_message)])\<rparr>, d))"
  using assms by (simp add: AccountViewSet_partial_update_def atomic_def)

theorem partial_update_error_mapping_witness:
  "AccountViewSet_partial_update sample_update (get_account_settings sample_visible)
       (patch_request bob [(''email'', ''x@y'')]) ''alice'' db0 =
     (Inr \<lparr>status = 404, body = None\<rparr>, db0) \<and>
   AccountViewSet_partial_update sample_update (get_account_settings sample_visible)
       (patch_request admin [(''email'', ''x@y'')]) ''alice'' db0 =
     (Inr \<lparr>status = 403, body = None\<rparr>, db0) \<and>
   AccountViewSet_partial_update sample_update (get_account_settings sample_visible)
       (patch_request carol [(''email'', ''x@y'')]) ''carol'' db0 =
     (Inr \<lparr>status = 404, body = None\<rparr>, db0) \<and>
   AccountViewSet_partial_update sample_update (get_account_settings sample_visible)
       (patch_request alice [(''email'', ''nowhere'')]) ''alice'' db0 =
     (Inr \<lparr>status = 400,
           body = Some (JObj [(''field_errors'', JObj [(''email'', JStr ''not an address'')])])\<rparr>,
      db0) \<and>
   AccountViewSet_partial_update sample_update (get_account_settings sample_visible)
       (patch_request alice [(''username'', ''alicia'')]) ''alice'' db0 =
     (Inr \<lparr>status = 400,
           body = Some (JObj [(''developer_message'', JStr ''username is read-only''),
                              (''user_message'', JStr ''This field cannot be changed.'')])\<rparr>,
      db0)"
  using partial_update_error_mapping
          [where upd = sample_update and gas = "get_account_settings sample_visible"
             and req = "patch_request bob [(''email'', ''x@y'')]" and uname = "''alice''"
             and d = db0 and e = "Exn UserNotAuthorized []" and ?d1.0 = db0]
        partial_update_error_mapping
          [where upd = sample_update and gas = "get_account_settings sample_visible"
             and req = "patch_request admin [(''email'', ''x@y'')]" and uname = "''alice''"
             and d = db0 and e = "Exn UserNotAuthorized []" and ?d1.0 = db0]
        partial_update_error_mapping
          [where upd = sample_update and gas = "get_account_settings sample_visible"
             and req = "patch_request carol [(''email'', ''x@y'')]" and uname = "''carol''"
             and d = db0 and e = "Exn UserNotFound []" and ?d1.0 = db0]
        partial_update_error_mapping
          [where upd = sample_update and gas = "get_account_settings sample_visible"
             and req = "patch_request alice [(''email'', ''nowhere'')]" and uname = "''alice''"
             and d = db0
             and e = "Exn (AccountValidationError (JObj [(''email'', JStr ''not an address'')])) []"
             and field_errors = "JObj [(''email'', JStr ''not an address'')]"
             and ?d1.0 = "db0\<lparr>users := (users db0)(''alice'' \<mapsto> alice\<lparr>email := ''nowhere''\<rparr>)\<rparr>"]
        partial_update_error_mapping
          [where upd = sample_update and gas = "get_account_settings sample_visible"
             and req = "patch_request alice [(''username'', ''alicia'')]" and uname = "''alice''"
             and d = db0
             and e = "Exn (AccountUpdateError (JStr ''username is read-only'')
                                              (JStr ''This field cannot be changed.'')) []"
             and developer_message = "JStr ''username is read-only''"
             and user_message = "JStr ''This field cannot be changed.''"
             and ?d1.0 = db0]
  by (simp add: partial_update_block_def seq_def request_data_def parser_classes_def ret_def
        patch_request_def request_of_def MergePatchParser_def sample_update_def
        db0_def alice_def bob_def admin_def carol_def)

text \<open>
  C6. A PATCH request whose content type is not \<open>application/merge-patch+json\<close> is
  answered with status 415 whatever its body is; the answer does not depend on the
  update service or the settings service, and the database is unchanged.
\<close>

theorem patch_other_content_type:
  assumes "content_type req \<noteq> MergePatchParser"
  shows "dispatch_patch upd gas (req\<lparr>data := b\<rparr>) uname d =
           (Inr \<lparr>status = 415,
                 body = Some (JObj [(''detail'', JStr ''Unsupported media type in request.'')])\<rparr>,
            d)"
  using assms
  by (simp add: dispatch_patch_def AccountViewSet_partial_update_def partial_update_block_def
        atomic_def seq_def request_data_def parser_classes_def raise_def handle_exception_def)

theorem patch_other_content_type_witness:
  "dispatch_patch sample_update (get_account_settings sample_visible)
       ((request_of alice [] ''application/json'' [])
          \<lparr>data := Mapping [''email'' \<mapsto> ''alice@edx.org'']\<rparr>)
       ''alice'' db0 =
     (Inr \<lparr>status = 415,
           body = Some (JObj [(''detail'', JStr ''Unsupported media type in request.'')])\<rparr>,
      db0)"
  using patch_other_content_type
          [where req = "request_of alice [] ''application/json'' []"
             and b = "Mapping [''email'' \<mapsto> ''alice@edx.org'']" and upd = sample_update
             and gas = "get_account_settings sample_visible" and uname = "''alice''" and d = db0]
  by (simp add: request_of_def MergePatchParser_def)

section \<open>Retrieval\<close>

text \<open>
  C2. With the settings service as the specification describes it, a single retrieval of
  a username that has no account, and a list retrieval in which one of the named
  usernames has no account, are answered with status 403 and no body when the caller is
  staff and with status 404 and no body otherwise; the database is unchanged.
\<close>

theorem unknown_username_forbidden_or_not_found:
  "(users d uname = None
    \<longrightarrow> AccountViewSet_retrieve (get_account_settings visible) req uname d =
          (Inr \<lparr>status = (if is_staff (user req) then 403 else 404), body = None\<rparr>, d)) \<and>
   (list_usernames req' = Some ns \<and> n \<in> set ns \<and> users d n = None
    \<longrightarrow> AccountViewSet_list (get_account_settings visible) req' d =
          (Inr \<lparr>status = (if is_staff (user req') then 403 else 404), body = None\<rparr>, d))"
  by (auto simp: AccountViewSet_retrieve_def AccountViewSet_list_def get_account_settings_def
        resolve_accounts_missing)

theorem unknown_username_forbidden_or_not_found_witness:
  "AccountViewSet_retrieve (get_account_settings sample_visible)
       (request_of admin [] [] []) ''carol'' db0 =
     (Inr \<lparr>status = 403, body = None\<rparr>, db0) \<and>
   AccountViewSet_retrieve (get_account_settings sample_visible)
       (request_of alice [] [] []) ''carol'' db0 =
     (Inr \<lparr>status = 404, body = None\<rparr>, db0) \<and>
   AccountViewSet_list (get_account_settings sample_visible)
       (request_of admin [(''username'', ''alice,carol'')] [] []) db0 =
     (Inr \<lparr>status = 403, body = None\<rparr>, db0) \<and>
   AccountViewSet_list (get_account_settings sample_visible)
       (request_of alice [(''username'', ''alice,carol'')] [] []) db0 =
     (Inr \<lparr>status = 404, body = None\<rparr>, db0)"
  using unknown_username_forbidden_or_not_found
          [where d = db0 and uname = "''carol''" and visible = sample_visible
             and req = "request_of admin [] [] []"
             and req' = "request_of admin [(''username'', ''alice,carol'')] [] []"
             and ns = "[''alice'', ''carol'']" and n = "''carol''"]
        unknown_username_forbidden_or_not_found
          [where d = db0 and uname = "''carol''" and visible = sample_visible
             and req = "request_of alice [] [] []"
             and req' = "request_of alice [(''username'', ''alice,carol'')] [] []"
             and ns = "[''alice'', ''carol'']" and n = "''carol''"]
  by (simp add: request_of_def list_usernames_def str_strip_def db0_def alice_def admin_def)

text \<open>
  C9. For a username, a caller and a view selector for which the settings service
  returns one field map (as it does for an existing account), the single retrieval
  returns that field map and the list retrieval with that one username returns the
  sequence whose sole element is the same field map. Usernames are not empty and contain
  no comma, the separator of the list parameter.
\<close>

theorem retrieve_equals_single_list:
  assumes "uname \<noteq> []" and "CHR '','' \<notin> set uname"
    and "query_params lreq ''username'' = Some uname"
    and "user lreq = user rreq"
    and "query_params lreq ''view'' = query_params rreq ''view''"
    and "gas (user rreq) (Some [uname]) (query_params rreq ''view'') d = (Inr [s], d')"
  shows "AccountViewSet_retrieve gas rreq uname d = (Inr \<lparr>status = 200, body = Some s\<rparr>, d') \<and>
         AccountViewSet_list gas lreq d = (Inr \<lparr>status = 200, body = Some (JList [s])\<rparr>, d')"
proof -
  have "list_usernames lreq = Some [uname]"
    using assms(1,2,3) by (simp add: list_usernames_def strip_split_single)
  then show ?thesis
    using assms
    by (simp add: AccountViewSet_retrieve_def AccountViewSet_list_def seq_def first_item_def
          ret_def)
qed

theorem retrieve_equals_single_list_witness:
  "AccountViewSet_retrieve (get_account_settings sample_visible)
       (request_of bob [(''view'', ''shared'')] [] []) ''alice'' db0 =
     (Inr \<lparr>status = 200, body = Some (JObj [(''username'', JStr ''alice'')])\<rparr>, db0) \<and>
   AccountViewSet_list (get_account_settings sample_visible)
       (request_of bob [(''username'', ''alice''), (''view'', ''shared'')] [] []) db0 =
     (Inr \<lparr>status = 200, body = Some (JList [JObj [(''username'', JStr ''alice'')]])\<rparr>, db0)"
  using retrieve_equals_single_list
          [where uname = "''alice''" and gas = "get_account_settings sample_visible"
             and rreq = "request_of bob [(''view'', ''shared'')] [] []"
             and lreq = "request_of bob [(''username'', ''alice''), (''view'', ''shared'')] [] []"
             and d = db0 and d' = db0 and s = "JObj [(''username'', JStr ''alice'')]"]
  by (simp add: request_of_def get_account_settings_def sample_visible_def db0_def alice_def)

text \<open>
  The parameter \<open>alice,,bob,\<close> gives three entries, the second of them empty: the empty
  entry between the two inner commas is not dropped.
\<close>

theorem usernames_parameter_interior_empty_counterexample:
  "list_usernames (request_of alice [(''username'', ''alice,,bob,'')] [] []) =
     Some [''alice'', [], ''bob''] \<and>
   list_usernames (request_of alice [(''username'', ''alice,,bob,'')] [] []) \<noteq>
     Some [''alice'', ''bob'']"
  by (simp add: list_usernames_def request_of_def str_strip_def)

text \<open>
  C3 (as amended). The username parameter of a list retrieval is parsed by removing the
  commas at its two ends and cutting at every remaining comma: a parameter made of any
  entries without commas, the first and the last of them not empty, joined by commas
  and with any number of commas before and after, resolves to exactly those entries in
  that order. Entries are not trimmed, and an empty entry between two commas is kept.
\<close>

theorem usernames_parameter_parse:
  assumes "names \<noteq> []" "\<forall>n \<in> set names. CHR '','' \<notin> set n"
    "hd names \<noteq> []" "last names \<noteq> []"
    "set pre \<subseteq> {CHR '',''}" "set suf \<subseteq> {CHR '',''}"
    "query_params req ''username'' = Some (pre @ str_join CHR '','' names @ suf)"
  shows "list_usernames req = Some names"
proof -
  have "str_join CHR '','' names \<noteq> []"
    using assms(1,3) by (rule str_join_Nil)
  then show ?thesis
    using assms by (simp add: list_usernames_def strip_split_join)
qed

theorem usernames_parameter_parse_witness:
  "list_usernames (request_of alice [(''username'', ''alice,bob,'')] [] []) =
     Some [''alice'', ''bob''] \<and>
   list_usernames (request_of alice [(''username'', '',alice,,bob,,'')] [] []) =
     Some [''alice'', [], ''bob''] \<and>
   list_usernames (request_of alice [(''username'', '' alice , bob'')] [] []) =
     Some ['' alice '', '' bob'']"
  using usernames_parameter_parse
          [where names = "[''alice'', ''bob'']" and pre = "[]" and suf = "'',''"
             and req = "request_of alice [(''username'', ''alice,bob,'')] [] []"]
        usernames_parameter_parse
          [where names = "[''alice'', [], ''bob'']" and pre = "'',''" and suf = "'',,''"
             and req = "request_of alice [(''username'', '',alice,,bob,,'')] [] []"]
        usernames_parameter_parse
          [where names = "['' alice '', '' bob'']" and pre = "[]" and suf = "[]"
             and req = "request_of alice [(''username'', '' alice , bob'')] [] []"]
  by (simp add: request_of_def)

section \<open>Administrative endpoints\<close>

text \<open>
  C10. An administrative deactivation that names a username without an account raises
  the user model's \<open>DoesNotExist\<close>, which leaves the handler, and the database is
  unchanged. The handler has no error response: whenever it answers at all, the status
  is 200.
\<close>

theorem deactivation_unknown_user_raises:
  "(users d uname = None \<longrightarrow>
      AccountDeactivationView_post gas req uname d =
        (Inl (Exn DoesNotExist ''User matching query does not exist.''), d)) \<and>
   (\<forall>resp d'. AccountDeactivationView_post gas req uname d = (Inr resp, d')
      \<longrightarrow> status resp = 200)"
  by (auto simp: AccountDeactivationView_post_def seq_def objects_get_def ret_def raise_def
        set_unusable_password_def save_def first_item_def
      split: option.splits prod.splits sum.splits list.splits)

theorem deactivation_unknown_user_raises_witness:
  "AccountDeactivationView_post (get_account_settings sample_visible)
       (request_of admin [] ''application/json'' []) ''carol'' db0 =
     (Inl (Exn DoesNotExist ''User matching query does not exist.''), db0) \<and>
   (\<exists>resp d'. AccountDeactivationView_post (get_account_settings sample_visible)
                  (request_of admin [] ''application/json'' []) ''alice'' db0 = (Inr resp, d') \<and>
              status resp = 200)"
proof -
  have absent: "users db0 ''carol'' = None"
    by (simp add: db0_def)
  obtain resp d' where run:
    "AccountDeactivationView_post (get_account_settings sample_visible)
       (request_of admin [] ''application/json'' []) ''alice'' db0 = (Inr resp, d')"
    by (simp add: AccountDeactivationView_post_def seq_def objects_get_def
          set_unusable_password_def save_def get_account_settings_def first_item_def ret_def
          request_of_def db0_def alice_def)
  show ?thesis
    using deactivation_unknown_user_raises
            [where d = db0 and uname = "''carol''"
               and gas = "get_account_settings sample_visible"
               and req = "request_of admin [] ''application/json'' []"]
          deactivation_unknown_user_raises
            [where d = db0 and uname = "''alice''"
               and gas = "get_account_settings sample_visible"
               and req = "request_of admin [] ''application/json'' []"]
          absent run
    by blast
qed

text \<open>
  A retire-mailings request whose target is found and whose dispatch raises the user
  model's \<open>DoesNotExist\<close> is answered 404 without a body, not 500 with the text.
\<close>

theorem retire_mailings_dispatch_does_not_exist_counterexample:
  "sample_lookup ''alice'' ''retired__user_1'' db0 = (Inr alice, db0) \<and>
   AccountRetireMailingsView_post sample_parsers sample_lookup sample_opt_in vanished_send
       (request_of admin [] ''application/json'' [(''retired_username'', ''retired__user_1'')])
       ''alice'' db0 =
     (Inr \<lparr>status = 404, body = None\<rparr>, db0)"
  by (simp add: AccountRetireMailingsView_post_def retire_mailings_try_def
        retire_mailings_block_def seq_def atomic_def request_data_def data_subscript_def ret_def
        request_of_def sample_parsers_def sample_lookup_def sample_opt_in_def vanished_send_def
        email_optin_tags_def db0_def alice_def)

text \<open>
  C7 (as amended). In a retire-mailings request that reaches the \<^verbatim>\<open>try\<close> and whose
  target is found, if an opt-out step or the dispatch of the notification raises, the
  database is the one at the start of the transaction, so that no opt-out of the request
  is kept, and the response is 500 with the text of the exception, unless the exception
  is of the user model's class \<open>DoesNotExist\<close>: then the response is 404, as it is
  when the lookup of the target raises it.
\<close>

theorem retire_mailings_rollback:
  assumes "content_type req \<in> set parsers" and "data req = Mapping m"
    and "m ''retired_username'' = Some r"
  shows
    "(lookup uname r d = (Inr u, d1) \<and>
      (opt_out_each opt_in u (email_optin_tags u d1) d1 = (Inl e, d2) \<or>
       (\<exists>d'. opt_out_each opt_in u (email_optin_tags u d1) d1 = (Inr (), d') \<and>
             send u d' = (Inl e, d2)))
      \<longrightarrow> AccountRetireMailingsView_post parsers lookup opt_in send req uname d =
            (Inr (if kind e = DoesNotExist then \<lparr>status = 404, body = None\<rparr>
                  else \<lparr>status = 500, body = Some (JStr (text_type e))\<rparr>), d1)) \<and>
     (lookup uname r d = (Inl e', d1') \<and> kind e' = DoesNotExist
      \<longrightarrow> AccountRetireMailingsView_post parsers lookup opt_in send req uname d =
            (Inr \<lparr>status = 404, body = None\<rparr>, d1'))"
  using assms
  by (auto simp: AccountRetireMailingsView_post_def retire_mailings_try_def seq_def atomic_def
        retire_mailings_block_def request_data_def data_subscript_def ret_def)

theorem retire_mailings_rollback_witness:
  "AccountRetireMailingsView_post sample_parsers sample_lookup sample_opt_in failing_send
       (request_of admin [] ''application/json'' [(''retired_username'', ''retired__user_1'')])
       ''alice'' db0 =
     (Inr \<lparr>status = 500, body = Some (JStr ''mailing service unavailable'')\<rparr>, db0) \<and>
   AccountRetireMailingsView_post sample_parsers sample_lookup failing_opt_in failing_send
       (request_of admin [] ''application/json'' [(''retired_username'', ''retired__user_1'')])
       ''alice'' db0 =
     (Inr \<lparr>status = 500, body = Some (JStr ''preference store unavailable'')\<rparr>, db0) \<and>
   AccountRetireMailingsView_post sample_parsers sample_lookup sample_opt_in vanished_send
       (request_of admin [] ''application/json'' [(''retired_username'', ''retired__user_1'')])
       ''alice'' db0 =
     (Inr \<lparr>status = 404, body = None\<rparr>, db0) \<and>
   AccountRetireMailingsView_post sample_parsers sample_lookup sample_opt_in failing_send
       (request_of admin [] ''application/json'' [(''retired_username'', ''retired__user_9'')])
       ''carol'' db0 =
     (Inr \<lparr>status = 404, body = None\<rparr>, db0)"
  using retire_mailings_rollback
          [where req = "request_of admin [] ''application/json''
                          [(''retired_username'', ''retired__user_1'')]"
             and parsers = sample_parsers
             and m = "map_of [(''retired_username'', ''retired__user_1'')]"
             and r = "''retired__user_1''" and lookup = sample_lookup and uname = "''alice''"
             and d = db0 and u = alice and ?d1.0 = db0 and opt_in = sample_opt_in
             and send = failing_send and e = "Exn OtherError ''mailing service unavailable''"
             and ?d2.0 = "db0\<lparr>org_tags :=
                   map (\<lambda>t. if tag_user t = 1 then t\<lparr>tag_value := ''False''\<rparr> else t)
                       (org_tags db0)\<rparr>"]
        retire_mailings_rollback
          [where req = "request_of admin [] ''application/json''
                          [(''retired_username'', ''retired__user_1'')]"
             and parsers = sample_parsers
             and m = "map_of [(''retired_username'', ''retired__user_1'')]"
             and r = "''retired__user_1''" and lookup = sample_lookup and uname = "''alice''"
             and d = db0 and u = alice and ?d1.0 = db0 and opt_in = failing_opt_in
             and send = failing_send and e = "Exn OtherError ''preference store unavailable''"
             and ?d2.0 = "db0\<lparr>org_tags :=
                   map (\<lambda>t. if tag_user t = 1 \<and> org t = ''edX''
                             then t\<lparr>tag_value := ''False''\<rparr> else t)
                       (org_tags db0)\<rparr>"]
        retire_mailings_rollback
          [where req = "request_of admin [] ''application/json''
                          [(''retired_username'', ''retired__user_1'')]"
             and parsers = sample_parsers
             and m = "map_of [(''retired_username'', ''retired__user_1'')]"
             and r = "''retired__user_1''" and lookup = sample_lookup and uname = "''alice''"
             and d = db0 and u = alice and ?d1.0 = db0 and opt_in = sample_opt_in
             and send = vanished_send
             and e = "Exn DoesNotExist ''User matching query does not exist.''"
             and ?d2.0 = "db0\<lparr>org_tags :=
                   map (\<lambda>t. if tag_user t = 1 then t\<lparr>tag_value := ''False''\<rparr> else t)
                       (org_tags db0)\<rparr>"]
        retire_mailings_rollback
          [where req = "request_of admin [] ''application/json''
                          [(''retired_username'', ''retired__user_9'')]"
             and parsers = sample_parsers
             and m = "map_of [(''retired_username'', ''retired__user_9'')]"
             and r = "''retired__user_9''" and lookup = sample_lookup and uname = "''carol''"
             and d = db0 and opt_in = sample_opt_in and send = failing_send
             and e' = "Exn DoesNotExist ''User matching query does not exist.''"
             and ?d1'.0 = db0]
  by (simp add: request_of_def sample_parsers_def sample_lookup_def db0_def alice_def bob_def
        admin_def email_optin_tags_def sample_opt_in_def failing_opt_in_def failing_send_def
        vanished_send_def)




text \<open>
  C4. On a retire-mailings request whose body is a mapping without the
  \<open>retired_username\<close> field, the \<open>KeyError\<close> of the subscript
  \<^verbatim>\<open>request.data['retired_username']\<close>, which stands before the \<^verbatim>\<open>try\<close>, leaves
  the handler: it is not caught, and no response with the exception's text is built.
\<close>

theorem retire_mailings_missing_key_raises:
  "AccountRetireMailingsView_post sample_parsers sample_lookup sample_opt_in failing_send
       (request_of admin [] ''application/json'' []) ''alice'' db0 =
     (Inl (Exn KeyError (CHR 0x27 # ''retired_username'' @ [CHR 0x27])), db0)"
  by (simp add: AccountRetireMailingsView_post_def seq_def request_data_def data_subscript_def
        ret_def raise_def request_of_def sample_parsers_def)

end
